theory Spec2Isabelle
  imports Main "HOL-Library.Sublist"
begin

section \<open>Python values used by the backend\<close>

text \<open>
  Python text is a \<open>string\<close> here: the list of the bytes of its UTF-8 encoding. The code
  only concatenates and compares text, which commutes with the encoding. The two emoji of
  the response messages are written as their three bytes each.
\<close>

definition cross_mark :: string where
  \<comment> \<open>U+274C, the first character of the two failure messages\<close>
  "cross_mark = [CHR 0xE2, CHR 0x9D, CHR 0x8C]"

definition check_mark :: string where
  \<comment> \<open>U+2705, the first character of the success message\<close>
  "check_mark = [CHR 0xE2, CHR 0x9C, CHR 0x85]"

text \<open>
  Exceptions are values. The classes kept are the ones the handlers of the source tell
  apart, with the subclasses of SyntaxError that \<open>ast.parse\<close> raises, and the classes
  the source raises itself. Every value of \<open>exn\<close> is an instance of Python's
  \<open>Exception\<close>, so \<open>except Exception\<close> catches all of them; \<open>except SyntaxError\<close>
  catches the instances of SyntaxError and of its subclasses only.
\<close>

datatype exn_class =
    SyntaxError
  | IndentationError
  | TabError
  | ValueError
  | RecursionError
  | OtherException string

fun is_SyntaxError :: "exn_class \<Rightarrow> bool" where
  "is_SyntaxError SyntaxError = True"
| "is_SyntaxError IndentationError = True"
| "is_SyntaxError TabError = True"
| "is_SyntaxError ValueError = False"
| "is_SyntaxError RecursionError = False"
| "is_SyntaxError (OtherException name) = False"

datatype exn = Exn (cls: exn_class) (str: string)

definition then_call :: "exn + 'a \<Rightarrow> ('a \<Rightarrow> exn + 'b) \<Rightarrow> exn + 'b" where
  \<comment> \<open>two statements in sequence: the second runs only if the first did not raise\<close>
  "then_call r f = (case r of Inl e \<Rightarrow> Inl e | Inr v \<Rightarrow> f v)"

fun falsy :: "string option \<Rightarrow> bool" where
  \<comment> \<open>\<open>not api_key\<close>: true of \<open>None\<close> and of the empty string\<close>
  "falsy None = True"
| "falsy (Some s) = (s = [])"

section \<open>The world outside the repository\<close>

record GenerativeModel =
  model_name :: string
  system_instruction :: string

text \<open>
  What the process does, in order: the line it prints, the configuration of the client
  library, the construction of an envelope, the call of the analyzer's \<open>analyze\<close> and the
  remote call.
\<close>

datatype event =
    Print string
  | Configure string
  | Built string
  | AnalyzeCall string
  | GenerateContent GenerativeModel string

text \<open>
  The libraries are parameters: Python's \<open>ast\<close> module (\<open>ast.parse\<close>,
  \<open>ast.dump\<close> with its \<open>indent\<close> argument), the remote model
  (\<open>generate_content\<close>, and the \<open>text\<close> property of its response, which can raise
  too) and the process environment after \<open>load_dotenv\<close>.
\<close>

record ('tree, 'resp) world =
  ast_parse :: "string \<Rightarrow> exn + 'tree"
  ast_dump :: "'tree \<Rightarrow> nat \<Rightarrow> exn + string"
  generate_content :: "GenerativeModel \<Rightarrow> string \<Rightarrow> exn + 'resp"
  response_text :: "'resp \<Rightarrow> exn + string"
  getenv :: "string \<Rightarrow> string option"

section \<open>aaa\_analyzer.py\<close>

definition SYSTEM_PROMPT :: string where
  \<open>SYSTEM_PROMPT = concat (map (\<lambda>l. l @ ''\<newline>'') [
    ''You are an expert software testing analyzer specializing in detecting AAA (Arrange-Act-Assert) pattern issues in Python (pytest) unit test code. '',
    [],
    ''    '',
    [],
    ''    ## AAA Pattern Definition'',
    ''    The correct AAA pattern follows this sequence: Arrange '' @ [CHR 0xE2, CHR 0x86, CHR 0x92] @ '' Act '' @ [CHR 0xE2, CHR 0x86, CHR 0x92] @ '' Assert'',
    ''    - **Arrange**: Set up test data, mocks, and preconditions.'',
    ''    - **Act**: Execute the function being tested.'',
    ''    - **Assert**: Verify the expected outcome using 'assert'.'',
    [],
    ''    ## Special AAA Cases (Acceptable Deviations)'',
    ''    1. **No Arrange for Pure Functions**: '',
    ''       Example:'',
    ''       ```python'',
    ''       def test_add():'',
    ''           result = add(5, 3)  # Act'',
    ''           assert result == 8  # Assert'',
    ''       ```'',
    ''    2. **Shared Setup (Fixtures)**: Arrange happens in a pytest fixture.'',
    ''       Example:'',
    ''       ```python'',
    ''       @pytest.fixture'',
    ''       def db():'',
    ''           return Database() # Arrange in fixture'',
    [],
    ''       def test_query(db):'',
    ''           result = db.query("SELECT *") # Act'',
    ''           assert result is not None     # Assert'',
    ''       ```'',
    ''    3. **Expected Exception**: Using `pytest.raises` serves as implicit assertion.'',
    ''       Example:'',
    ''       ```python'',
    ''       def test_invalid_input():'',
    ''           with pytest.raises(ValueError): # Assert (Implicit)'',
    ''               calculator.divide(10, 0)    # Act'',
    ''       ```'',
    [],
    ''    ## AAA Issues to Detect'',
    [],
    ''    ### Deviation Patterns (Structure Issues):'',
    ''    1. **Multiple AAA**: Test contains multiple <arrange,act,assert> sequences.'',
    ''       Example:'',
    ''       ```python'',
    ''       def test_multiple_scenarios():'',
    ''           # Seq 1'',
    ''           calc = Calculator()'',
    ''           assert calc.add(1, 1) == 2'',
    ''           '',
    ''           # Seq 2 - VIOLATION'',
    ''           calc.clear()'',
    ''           assert calc.sub(2, 1) == 1'',
    ''       ```'',
    ''       Issue: Violates Single Responsibility. Split into `test_add` and `test_sub`.'',
    ''       '',
    ''    2. **Missing Assert**: <arrange,act> without assertion.'',
    ''       Example:'',
    ''       ```python'',
    ''       def test_save_user():'',
    ''           user = User("John")       # Arrange'',
    ''           repo.save(user)           # Act'',
    ''           # VIOLATION: No assert!'',
    ''       ```'',
    ''       Issue: Test passes even if save fails silently.'',
    [],
    ''    3. **Assert Pre-condition**: Asserts before the Act.'',
    ''       Example:'',
    ''       ```python'',
    ''       def test_update():'',
    ''           user = repo.get(1)'',
    ''           assert user.name == "John" # VIOLATION: This is a pre-condition'',
    ''           '',
    ''           user.name = "Jane"         # Act'',
    ''           assert user.name == "Jane" # Assert'',
    ''       ```'',
    ''       Issue: Use assertions only for the final result. Trust your Arrange phase.'',
    [],
    ''    ### Design Issues:'',
    ''    4. **Obscure Assert**: Complex logic (loops/ifs) inside the test.'',
    ''       Example:'',
    ''       ```python'',
    ''       def test_process():'',
    ''           results = process(data)'',
    ''           # VIOLATION: Complex logic'',
    ''           found = False'',
    ''           for r in results:'',
    ''               if r.status == "OK":'',
    ''                   found = True'',
    ''           assert found'',
    ''       ```'',
    ''       Issue: Tests should be linear. Use `assert any(r.status == "OK" for r in results)`.'',
    [],
    ''    ## Input Format'',
    ''    <test_code>Python code</test_code>'',
    ''    <ast>AST dump</ast>'',
    [],
    ''    ## Output Format'',
    ''    <analysis>'',
    ''      <focal_method>Name of function being tested</focal_method>'',
    ''      <issueType>Good AAA | [Issue Name]</issueType>'',
    ''      <reasoning>'',
    ''        Explain why it deviates. '',
    ''        If it is a "Valid Multiple Acts" (rare), explain why.'',
    ''      </reasoning>'',
    ''    </analysis>''
  ]) @ ''    ''\<close>

record AAAAnalyzer =
  model :: GenerativeModel

definition default_model_name :: string where
  "default_model_name = ''gemini-1.5-flash''"

definition AAAAnalyzer_init ::
  "string option \<Rightarrow> string \<Rightarrow> event list \<Rightarrow> (exn + AAAAnalyzer) \<times> event list" where
  "AAAAnalyzer_init api_key name tr =
     (case api_key of
        None \<Rightarrow> (Inl (Exn ValueError ''API Key is required for AAAAnalyzer''), tr)
      | Some k \<Rightarrow>
          if k = [] then (Inl (Exn ValueError ''API Key is required for AAAAnalyzer''), tr)
          else (Inr \<lparr>model = \<lparr>model_name = name, system_instruction = SYSTEM_PROMPT\<rparr>\<rparr>,
                tr @ [Configure k]))"

definition analyze ::
  "('tree, 'resp) world \<Rightarrow> AAAAnalyzer \<Rightarrow> string \<Rightarrow> event list \<Rightarrow> (exn + string) \<times> event list" where
  "analyze W self formatted_test_case tr =
     (let tr' = tr @ [GenerateContent (model self) formatted_test_case] in
      case then_call (generate_content W (model self) formatted_test_case) (response_text W) of
        Inr text \<Rightarrow> (Inr text, tr')
      | Inl e \<Rightarrow>
          (Inr (''<analysis><error>Gemini API Failed: '' @ str e @ ''</error></analysis>''), tr'))"

section \<open>server.py\<close>

record CodeSnippet =
  code :: string

type_synonym response = "(string \<times> string) list"

type_synonym analyze_method = "string \<Rightarrow> event list \<Rightarrow> (exn + string) \<times> event list"

definition startup ::
  "('tree, 'resp) world \<Rightarrow> event list \<Rightarrow> (exn + AAAAnalyzer) \<times> event list" where
  \<comment> \<open>the module-level statements: read the key, refuse to go on without it, build the analyzer\<close>
  "startup W tr =
     (let api_key = getenv W ''GEMINI_API_KEY'' in
      if falsy api_key
      then (Inl (Exn ValueError (cross_mark @ '' No API Key found! Check your .env file.'')), tr)
      else AAAAnalyzer_init api_key ''gemini-3-flash-preview'' tr)"

definition home :: response where
  "home = [(''message'', ''Server is Running! Use the VS Code extension to send data.'')]"

definition structural_dump :: "('tree, 'resp) world \<Rightarrow> string \<Rightarrow> exn + string" where
  \<comment> \<open>the body of the first \<open>try\<close>: \<open>ast.parse\<close>, then \<open>ast.dump(tree, indent=2)\<close>\<close>
  "structural_dump W source = then_call (ast_parse W source) (\<lambda>tree. ast_dump W tree 2)"

definition formatted_input :: "string \<Rightarrow> string \<Rightarrow> string" where
  \<comment> \<open>the f-string of the handler, line by line\<close>
  "formatted_input source ast_string =
     ''\<newline>'' @
     ''    <test_code>\<newline>'' @
     ''    '' @ source @ ''\<newline>'' @
     ''    </test_code>\<newline>'' @
     ''\<newline>'' @
     ''    <ast>\<newline>'' @
     ''    '' @ ast_string @ ''\<newline>'' @
     ''    </ast>\<newline>'' @
     ''    \<newline>'' @
     ''    <<production_code>\<newline>'' @
     ''    # Not provided in this context\<newline>'' @
     ''    </production_code>\<newline>'' @
     ''    ''"

definition syntax_error_body :: string where
  "syntax_error_body = ''<analysis><error>Invalid Python Code</error></analysis>''"

definition analyze_code ::
  "('tree, 'resp) world \<Rightarrow> analyze_method \<Rightarrow> CodeSnippet \<Rightarrow> event list \<Rightarrow> (exn + response) \<times> event list" where
  \<comment> \<open>\<open>analyzer\<close> is the \<open>analyze\<close> method of the module's global \<open>analyzer\<close>\<close>
  "analyze_code W analyzer snippet tr =
     (let tr1 = tr @ [Print ''Received code for analysis...''] in
      case structural_dump W (code snippet) of
        Inl e \<Rightarrow>
          if is_SyntaxError (cls e)
          then (Inr [(''message'', cross_mark @ '' Syntax Error''),
                     (''analysis_result'', syntax_error_body)], tr1)
          else (Inl e, tr1)
      | Inr ast_string \<Rightarrow>
          (let envelope = formatted_input (code snippet) ast_string;
               tr2 = tr1 @ [Built envelope, AnalyzeCall envelope] in
           case analyzer envelope tr2 of
             (Inr result, tr3) \<Rightarrow>
               (Inr [(''message'', check_mark @ '' Analysis Complete''),
                     (''analysis_result'', result)], tr3)
           | (Inl e, tr3) \<Rightarrow>
               (Inr [(''message'', cross_mark @ '' Analysis Failed''),
                     (''analysis_result'', ''Error: '' @ str e)], tr3)))"

definition served ::
  "('tree, 'resp) world \<Rightarrow> AAAAnalyzer \<Rightarrow> CodeSnippet \<Rightarrow> event list \<Rightarrow> (exn + response) \<times> event list" where
  \<comment> \<open>the handler as the module wires it: \<open>analyzer\<close> is the AAAAnalyzer built at startup\<close>
  "served W self = analyze_code W (analyze W self)"

definition serve_after_startup ::
  "('tree, 'resp) world \<Rightarrow> CodeSnippet \<Rightarrow> event list \<Rightarrow> (exn + response) \<times> event list" where
  \<comment> \<open>the process from its start to its first request: the module runs, then the handler\<close>
  "serve_after_startup W snippet tr =
     (case startup W tr of
        (Inl e, tr') \<Rightarrow> (Inl e, tr')
      | (Inr analyzer, tr') \<Rightarrow> served W analyzer snippet tr')"

section \<open>Vocabulary of the properties\<close>

text \<open>
  A section of the envelope is a body between an opening and a closing tag of the same
  name; the handler puts each body on a line of its own, indented by four spaces.
\<close>

definition labelled :: "string \<Rightarrow> string \<Rightarrow> string" where
  "labelled tag body = ''<'' @ tag @ ''>'' @ body @ ''</'' @ tag @ ''>''"

definition on_own_line :: "string \<Rightarrow> string" where
  "on_own_line s = ''\<newline>    '' @ s @ ''\<newline>    ''"

text \<open>
  The error shape of the analyzer's output: an \<open>analysis\<close> document whose content is one
  \<open>error\<close> element.
\<close>

definition error_schema :: "string \<Rightarrow> bool" where
  "error_schema s =
     (prefix ''<analysis><error>'' s \<and> suffix ''</error></analysis>'' s \<and>
      length ''<analysis><error>'' + length ''</error></analysis>'' \<le> length s)"

text \<open>The \<open>message\<close> field of what the handler returned, if it returned a record.\<close>

definition message_of :: "exn + response \<Rightarrow> string option" where
  "message_of r = (case r of Inl e \<Rightarrow> None | Inr d \<Rightarrow> map_of d ''message'')"

text \<open>The events of the pipeline after structural extraction.\<close>

fun is_oracle_event :: "event \<Rightarrow> bool" where
  "is_oracle_event (Print line) = False"
| "is_oracle_event (Configure k) = False"
| "is_oracle_event (Built envelope) = True"
| "is_oracle_event (AnalyzeCall envelope) = True"
| "is_oracle_event (GenerateContent m envelope) = True"

section \<open>Test doubles\<close>

text \<open>
  A stand-in for the libraries, for running the handler on concrete requests. Its parser
  knows three texts: the expression \<open>1+1+...+1\<close> with 5000 additions, on which CPython's
  \<open>ast.parse\<close> raises RecursionError; the malformed \<open>def test(:\<close>, a SyntaxError; and
  the empty text, the empty module. Its remote model answers every envelope with the same
  verdict; the variant \<open>stub_world_down\<close> fails every remote call. The variant
  \<open>stub_world_oom\<close> has a parser that knows a fourth text: 6000 minus signs, which is
  not Python and on which CPython's \<open>ast.parse\<close> raises MemoryError, with an empty
  message, instead of SyntaxError.
\<close>

definition deep_expr :: string where
  "deep_expr = ''1'' @ concat (replicate 5000 ''+1'')"

definition stub_parse :: "string \<Rightarrow> exn + string list" where
  "stub_parse s =
     (if s = deep_expr
      then Inl (Exn RecursionError ''maximum recursion depth exceeded during ast construction'')
      else if s = ''def test(:''
      then Inl (Exn SyntaxError ''invalid syntax (<unknown>, line 1)'')
      else if s = [] then Inr [] else Inr [s])"

definition stub_dump :: "string list \<Rightarrow> nat \<Rightarrow> exn + string" where
  "stub_dump body indent =
     (if body = [] then Inr ''Module(body=[], type_ignores=[])''
      else Inr ''Module(body=[...], type_ignores=[])'')"

definition stub_world :: "(string list, string) world" where
  "stub_world =
     \<lparr>ast_parse = stub_parse,
      ast_dump = stub_dump,
      generate_content =
        (\<lambda>m envelope. Inr ''<analysis><issueType>Good AAA</issueType></analysis>''),
      response_text = Inr,
      getenv = (\<lambda>name. if name = ''GEMINI_API_KEY'' then Some ''secret'' else None)\<rparr>"

definition stub_world_down :: "(string list, string) world" where
  "stub_world_down =
     stub_world\<lparr>generate_content :=
       (\<lambda>m envelope. Inl (Exn (OtherException ''DeadlineExceeded'') ''504 Deadline Exceeded''))\<rparr>"

definition stub_world_no_key :: "(string list, string) world" where
  "stub_world_no_key = stub_world\<lparr>getenv := (\<lambda>name. None)\<rparr>"

definition dash_expr :: string where
  \<comment> \<open>6000 minus signs: not Python, and too deep for CPython's parser\<close>
  "dash_expr = replicate 6000 CHR ''-''"

definition stub_world_oom :: "(string list, string) world" where
  \<comment> \<open>\<open>stub_world\<close> with a parser that, as CPython's does, raises MemoryError on \<open>dash_expr\<close>\<close>
  "stub_world_oom =
     stub_world\<lparr>ast_parse :=
       (\<lambda>s. if s = dash_expr then Inl (Exn (OtherException ''MemoryError'') [])
            else stub_parse s)\<rparr>"

definition gemini_analyzer :: AAAAnalyzer where
  \<comment> \<open>the analyzer that the module builds at startup\<close>
  "gemini_analyzer =
     \<lparr>model = \<lparr>model_name = ''gemini-3-flash-preview'', system_instruction = SYSTEM_PROMPT\<rparr>\<rparr>"

definition raising_analyzer :: analyze_method where
  "raising_analyzer envelope tr = (Inl (Exn (OtherException ''TimeoutError'') ''timed out''), tr)"

section \<open>Facts about the definitions\<close>

lemma length_deep_expr: "length deep_expr = 10001"
  by (simp add: deep_expr_def length_concat sum_list_replicate)

lemma short_not_deep: "length s < 10001 \<Longrightarrow> s \<noteq> deep_expr"
  using length_deep_expr by auto

lemma error_schema_wrap: "error_schema (''<analysis><error>'' @ body @ ''</error></analysis>'')"
proof -
  have "suffix ''</error></analysis>'' ((''<analysis><error>'' @ body) @ ''</error></analysis>'')"
    by (rule suffix_appendI) simp
  then show ?thesis
    unfolding error_schema_def by simp
qed

lemma error_schema_body:
  assumes "error_schema s"
  shows "\<exists>body. s = ''<analysis><error>'' @ body @ ''</error></analysis>''"
proof -
  from assms obtain r where r: "s = ''<analysis><error>'' @ r"
    unfolding error_schema_def prefix_def by blast
  from assms have suf: "suffix ''</error></analysis>'' s" and len: "36 \<le> length s"
    unfolding error_schema_def by simp_all
  from r len have lr: "19 \<le> length r" by simp
  from suf r have "suffix ''</error></analysis>'' r \<or>
      (\<exists>xs'. ''</error></analysis>'' = xs' @ r \<and> suffix xs' ''<analysis><error>'')"
    by (simp only: suffix_append)
  then have "suffix ''</error></analysis>'' r"
  proof
    assume "suffix ''</error></analysis>'' r"
    then show ?thesis .
  next
    assume "\<exists>xs'. ''</error></analysis>'' = xs' @ r \<and> suffix xs' ''<analysis><error>''"
    then obtain xs' where x: "''</error></analysis>'' = xs' @ r" by blast
    then have "length ''</error></analysis>'' = length xs' + length r"
      by (metis length_append)
    then have "19 = length xs' + length r" by simp
    with lr have "length xs' = 0" by arith
    then have "xs' = []" by simp
    with x have "r = ''</error></analysis>''" by simp
    then show ?thesis by simp
  qed
  then obtain b where "r = b @ ''</error></analysis>''"
    unfolding suffix_def by blast
  with r show ?thesis by blast
qed

lemma analyze_returns:
  "\<exists>text. analyze W self envelope tr = (Inr text, tr @ [GenerateContent (model self) envelope])"
  by (simp add: analyze_def Let_def split: sum.split)

lemma analyze_code_syntax_error:
  assumes "structural_dump W (code snippet) = Inl e" and "is_SyntaxError (cls e)"
  shows "analyze_code W analyzer snippet tr =
           (Inr [(''message'', cross_mark @ '' Syntax Error''),
                 (''analysis_result'', syntax_error_body)],
            tr @ [Print ''Received code for analysis...''])"
  using assms by (simp add: analyze_code_def Let_def)

lemma analyze_code_fault:
  assumes "structural_dump W (code snippet) = Inl e" and "\<not> is_SyntaxError (cls e)"
  shows "analyze_code W analyzer snippet tr =
           (Inl e, tr @ [Print ''Received code for analysis...''])"
  using assms by (simp add: analyze_code_def Let_def)

lemma analyze_code_valid:
  assumes "structural_dump W (code snippet) = Inr d"
  shows "analyze_code W analyzer snippet tr =
           (case analyzer (formatted_input (code snippet) d)
                   (tr @ [Print ''Received code for analysis...'',
                          Built (formatted_input (code snippet) d),
                          AnalyzeCall (formatted_input (code snippet) d)]) of
              (Inr result, tr3) \<Rightarrow>
                (Inr [(''message'', check_mark @ '' Analysis Complete''),
                      (''analysis_result'', result)], tr3)
            | (Inl e, tr3) \<Rightarrow>
                (Inr [(''message'', cross_mark @ '' Analysis Failed''),
                      (''analysis_result'', ''Error: '' @ str e)], tr3))"
  using assms by (simp add: analyze_code_def Let_def)

lemma parse_error_is_dump_error:
  "ast_parse W source = Inl e \<Longrightarrow> structural_dump W source = Inl e"
  by (simp add: structural_dump_def then_call_def)

lemma stub_dump_ok: "structural_dump stub_world ''x = 1'' = Inr ''Module(body=[...], type_ignores=[])''"
  by (simp add: structural_dump_def then_call_def stub_world_def stub_parse_def stub_dump_def
      short_not_deep)

lemma analyze_stub_world:
  "analyze stub_world self envelope tr =
     (Inr ''<analysis><issueType>Good AAA</issueType></analysis>'',
      tr @ [GenerateContent (model self) envelope])"
  by (simp add: analyze_def then_call_def stub_world_def)

lemma served_stub_world:
  assumes "structural_dump stub_world source = Inr d"
  shows "served stub_world self \<lparr>code = source\<rparr> tr =
          (Inr [(''message'', check_mark @ '' Analysis Complete''),
                (''analysis_result'', ''<analysis><issueType>Good AAA</issueType></analysis>'')],
           tr @ [Print ''Received code for analysis...'',
            Built (formatted_input source d),
            AnalyzeCall (formatted_input source d),
            GenerateContent (model self) (formatted_input source d)])"
proof -
  from assms have "structural_dump stub_world (code \<lparr>code = source\<rparr>) = Inr d"
    by simp
  from analyze_code_valid [OF this] show ?thesis
    unfolding served_def by (simp add: analyze_stub_world)
qed

lemma analyze_failure:
  assumes "generate_content W (model self) envelope = Inl e"
  shows "analyze W self envelope tr =
           (Inr (''<analysis><error>Gemini API Failed: '' @ str e @ ''</error></analysis>''),
            tr @ [GenerateContent (model self) envelope])"
  using assms by (simp add: analyze_def then_call_def)

lemma analyze_text_failure:
  assumes "generate_content W (model self) envelope = Inr response"
    and "response_text W response = Inl e"
  shows "analyze W self envelope tr =
           (Inr (''<analysis><error>Gemini API Failed: '' @ str e @ ''</error></analysis>''),
            tr @ [GenerateContent (model self) envelope])"
  using assms by (simp add: analyze_def then_call_def)

lemma analyze_success:
  assumes "generate_content W (model self) envelope = Inr response"
    and "response_text W response = Inr text"
  shows "analyze W self envelope tr = (Inr text, tr @ [GenerateContent (model self) envelope])"
  using assms by (simp add: analyze_def then_call_def)

lemma served_valid:
  assumes "structural_dump W (code snippet) = Inr d"
  shows "\<exists>result.
           analyze W self (formatted_input (code snippet) d)
             (tr @ [Print ''Received code for analysis...'',
                    Built (formatted_input (code snippet) d),
                    AnalyzeCall (formatted_input (code snippet) d)])
             = (Inr result,
                tr @ [Print ''Received code for analysis...'',
                      Built (formatted_input (code snippet) d),
                      AnalyzeCall (formatted_input (code snippet) d),
                      GenerateContent (model self) (formatted_input (code snippet) d)]) \<and>
           served W self snippet tr =
             (Inr [(''message'', check_mark @ '' Analysis Complete''),
                   (''analysis_result'', result)],
              tr @ [Print ''Received code for analysis...'',
                    Built (formatted_input (code snippet) d),
                    AnalyzeCall (formatted_input (code snippet) d),
                    GenerateContent (model self) (formatted_input (code snippet) d)])"
proof -
  let ?env = "formatted_input (code snippet) d"
  let ?tr2 = "tr @ [Print ''Received code for analysis...'', Built ?env, AnalyzeCall ?env]"
  from analyze_returns [of W self ?env ?tr2]
  obtain result where r: "analyze W self ?env ?tr2 = (Inr result, ?tr2 @ [GenerateContent (model self) ?env])"
    by blast
  then have "served W self snippet tr =
      (Inr [(''message'', check_mark @ '' Analysis Complete''), (''analysis_result'', result)],
       ?tr2 @ [GenerateContent (model self) ?env])"
    unfolding served_def by (simp add: analyze_code_valid [OF assms])
  with r show ?thesis by simp
qed

lemma served_failed_call:
  assumes "structural_dump W (code snippet) = Inr d"
    and "generate_content W (model self) (formatted_input (code snippet) d) = Inl e"
  shows "fst (served W self snippet tr) =
           Inr [(''message'', check_mark @ '' Analysis Complete''),
                (''analysis_result'',
                 ''<analysis><error>Gemini API Failed: '' @ str e @ ''</error></analysis>'')]"
  unfolding served_def
  by (simp add: analyze_code_valid [OF assms(1)] analyze_failure [OF assms(2)])

lemma error_schema_failure:
  "error_schema (''<analysis><error>Gemini API Failed: '' @ text @ ''</error></analysis>'')"
  using error_schema_wrap [of "''Gemini API Failed: '' @ text"] by simp

lemma error_schema_syntax: "error_schema syntax_error_body"
  using error_schema_wrap [of "''Invalid Python Code''"] by (simp add: syntax_error_body_def)

lemma stub_parse_malformed:
  "ast_parse stub_world ''def test(:'' = Inl (Exn SyntaxError ''invalid syntax (<unknown>, line 1)'')"
  by (simp add: stub_world_def stub_parse_def short_not_deep)

lemma stub_parse_deep:
  "structural_dump stub_world deep_expr =
     Inl (Exn RecursionError ''maximum recursion depth exceeded during ast construction'')"
  by (simp add: structural_dump_def then_call_def stub_world_def stub_parse_def)

lemma stub_world_down_ast:
  "ast_parse stub_world_down = ast_parse stub_world" "ast_dump stub_world_down = ast_dump stub_world"
  by (simp_all add: stub_world_down_def)

lemma stub_world_down_dump:
  "structural_dump stub_world_down source = structural_dump stub_world source"
  by (simp add: structural_dump_def stub_world_down_ast)

lemma stub_world_down_call:
  "generate_content stub_world_down m envelope =
     Inl (Exn (OtherException ''DeadlineExceeded'') ''504 Deadline Exceeded'')"
  by (simp add: stub_world_down_def)

lemma startup_with_key:
  assumes "getenv W ''GEMINI_API_KEY'' = Some k" and "k \<noteq> []"
  shows "startup W tr =
           (Inr \<lparr>model = \<lparr>model_name = ''gemini-3-flash-preview'',
                             system_instruction = SYSTEM_PROMPT\<rparr>\<rparr>,
            tr @ [Configure k])"
  using assms by (simp add: startup_def AAAAnalyzer_init_def)

lemma startup_stub_world: "startup stub_world [] = (Inr gemini_analyzer, [Configure ''secret''])"
  by (simp add: startup_with_key [where k = "''secret''"] stub_world_def gemini_analyzer_def)

lemma serve_after_startup_stub_world:
  "serve_after_startup stub_world \<lparr>code = ''x = 1''\<rparr> [] =
     (Inr [(''message'', check_mark @ '' Analysis Complete''),
           (''analysis_result'', ''<analysis><issueType>Good AAA</issueType></analysis>'')],
      [Configure ''secret'',
       Print ''Received code for analysis...'',
       Built (formatted_input ''x = 1'' ''Module(body=[...], type_ignores=[])''),
       AnalyzeCall (formatted_input ''x = 1'' ''Module(body=[...], type_ignores=[])''),
       GenerateContent (model gemini_analyzer)
         (formatted_input ''x = 1'' ''Module(body=[...], type_ignores=[])'')])"
  by (simp add: serve_after_startup_def startup_stub_world served_stub_world [OF stub_dump_ok])

lemma syntax_error_report:
  assumes "ast_parse W (code snippet) = Inl e" and "is_SyntaxError (cls e)"
  shows "analyze_code W analyzer snippet tr =
           (Inr [(''message'', cross_mark @ '' Syntax Error''),
                 (''analysis_result'', syntax_error_body)],
            tr @ [Print ''Received code for analysis...'']) \<and>
         filter is_oracle_event (drop (length tr) (snd (analyze_code W analyzer snippet tr))) = []"
  using assms
  by (simp add: analyze_code_syntax_error [OF parse_error_is_dump_error])

lemma syntax_error_report_stub_world:
  "served stub_world gemini_analyzer \<lparr>code = ''def test(:''\<rparr> [] =
     (Inr [(''message'', cross_mark @ '' Syntax Error''),
           (''analysis_result'', ''<analysis><error>Invalid Python Code</error></analysis>'')],
      [Print ''Received code for analysis...''])"
  using syntax_error_report
    [of stub_world "\<lparr>code = ''def test(:''\<rparr>"
        "Exn SyntaxError ''invalid syntax (<unknown>, line 1)''"
        "analyze stub_world gemini_analyzer" "[]"]
  by (simp add: stub_parse_malformed served_def syntax_error_body_def)

lemma stub_parse_dash:
  "structural_dump stub_world_oom dash_expr = Inl (Exn (OtherException ''MemoryError'') [])"
  by (simp add: structural_dump_def then_call_def stub_world_oom_def)

lemma raising_analyzer_run:
  "analyze_code stub_world raising_analyzer \<lparr>code = ''x = 1''\<rparr> [] =
     (Inr [(''message'', cross_mark @ '' Analysis Failed''),
           (''analysis_result'', ''Error: timed out'')],
      [Print ''Received code for analysis...'',
       Built (formatted_input ''x = 1'' ''Module(body=[...], type_ignores=[])''),
       AnalyzeCall (formatted_input ''x = 1'' ''Module(body=[...], type_ignores=[])'')])"
proof -
  have "structural_dump stub_world (code \<lparr>code = ''x = 1''\<rparr>)
          = Inr ''Module(body=[...], type_ignores=[])''"
    by (simp add: stub_dump_ok)
  from analyze_code_valid [OF this] show ?thesis
    by (simp add: raising_analyzer_def)
qed

section \<open>The request envelope\<close>

text \<open>
  C1. For every source text and every structural dump, the envelope is the three labelled
  sections in the order \<open>test_code\<close>, \<open>ast\<close>, \<open>production_code\<close>, each between
  its opening and its closing tag, and the source text stands unchanged, on a line of its
  own, inside the \<open>test_code\<close> section. The text between the sections is line breaks
  and indentation, and one stray \<open><\<close> that the source writes directly before the opening
  tag of the third section.
\<close>

theorem formatted_input_sections:
  "formatted_input source ast_string =
     ''\<newline>    '' @ labelled ''test_code'' (on_own_line source) @
     ''\<newline>\<newline>    '' @ labelled ''ast'' (on_own_line ast_string) @
     ''\<newline>    \<newline>    <'' @
     labelled ''production_code'' (on_own_line ''# Not provided in this context'') @
     ''\<newline>    ''"
  by (simp add: formatted_input_def labelled_def on_own_line_def)

section \<open>The response record\<close>

text \<open>
  C2, as it is stated, fails. The record the handler returns has the fields
  \<open>message\<close> and \<open>analysis_result\<close>, not \<open>status\<close> and \<open>result\<close>, and its
  message begins with an emoji and a space, so it is none of the three plain strings.
  The request \<open>x = 1\<close>, answered by the remote model, shows both.
\<close>

theorem response_fields_counterexample:
  "map fst (projr (fst (served stub_world gemini_analyzer \<lparr>code = ''x = 1''\<rparr> [])))
     \<noteq> [''status'', ''result''] \<and>
   map_of (projr (fst (served stub_world gemini_analyzer \<lparr>code = ''x = 1''\<rparr> []))) ''status''
     = None \<and>
   map_of (projr (fst (served stub_world gemini_analyzer \<lparr>code = ''x = 1''\<rparr> []))) ''message''
     = Some (check_mark @ '' Analysis Complete'') \<and>
   check_mark @ '' Analysis Complete''
     \<notin> {''Analysis Complete'', ''Syntax Error'', ''Analysis Failed''}"
  by (simp add: served_stub_world [OF stub_dump_ok] check_mark_def)

text \<open>
  C2, amended. Whenever the handler returns a record, the record has exactly two fields,
  \<open>message\<close> and \<open>analysis_result\<close>, in this order. The message is one of three
  strings, different from each other: the cross mark with \<open>Syntax Error\<close>, the check
  mark with \<open>Analysis Complete\<close>, the cross mark with \<open>Analysis Failed\<close>. With the
  first the result is the fixed error body; with the second it is the text that the
  analyzer returned for the envelope of this request; with the third it is \<open>Error:\<close>
  and the text of the exception that the analyzer raised.
\<close>

theorem response_fields:
  assumes "fst (analyze_code W analyzer snippet tr) = Inr r"
  shows "\<exists>status result.
           r = [(''message'', status), (''analysis_result'', result)] \<and>
           map fst r = [''message'', ''analysis_result''] \<and>
           distinct [cross_mark @ '' Syntax Error'', check_mark @ '' Analysis Complete'',
                     cross_mark @ '' Analysis Failed''] \<and>
           ((status = cross_mark @ '' Syntax Error'' \<and> result = syntax_error_body \<and>
             error_schema result) \<or>
            (status = check_mark @ '' Analysis Complete'' \<and>
             (\<exists>d tr'. structural_dump W (code snippet) = Inr d \<and>
                fst (analyzer (formatted_input (code snippet) d) tr') = Inr result)) \<or>
            (status = cross_mark @ '' Analysis Failed'' \<and>
             (\<exists>d tr' e. structural_dump W (code snippet) = Inr d \<and>
                fst (analyzer (formatted_input (code snippet) d) tr') = Inl e \<and>
                result = ''Error: '' @ str e)))"
proof -
  have dist: "distinct [cross_mark @ '' Syntax Error'', check_mark @ '' Analysis Complete'',
                     cross_mark @ '' Analysis Failed'']"
    by (simp add: cross_mark_def check_mark_def)
  show ?thesis
  proof (cases "structural_dump W (code snippet)")
    case (Inl e)
    show ?thesis
    proof (cases "is_SyntaxError (cls e)")
      case True
      with Inl assms have "r = [(''message'', cross_mark @ '' Syntax Error''),
                 (''analysis_result'', syntax_error_body)]"
        by (simp add: analyze_code_syntax_error)
      with dist error_schema_syntax show ?thesis by simp
    next
      case False
      with Inl assms show ?thesis by (simp add: analyze_code_fault)
    qed
  next
    case (Inr d)
    let ?tr2 = "tr @ [Print ''Received code for analysis...'',
                          Built (formatted_input (code snippet) d),
                          AnalyzeCall (formatted_input (code snippet) d)]"
    obtain out tr3 where a: "analyzer (formatted_input (code snippet) d) ?tr2 = (out, tr3)"
      by (cases "analyzer (formatted_input (code snippet) d) ?tr2") blast
    show ?thesis
    proof (cases out)
      case (Inl e)
      with a Inr assms have "r = [(''message'', cross_mark @ '' Analysis Failed''),
                      (''analysis_result'', ''Error: '' @ str e)]"
        by (simp add: analyze_code_valid)
      moreover from a Inl have "fst (analyzer (formatted_input (code snippet) d) ?tr2) = Inl e"
        by simp
      ultimately show ?thesis using dist \<open>structural_dump W (code snippet) = Inr d\<close>
        by (intro exI [of _ "cross_mark @ '' Analysis Failed''"] exI [of _ "''Error: '' @ str e"])
           (simp, blast)
    next
      case (Inr result)
      with a \<open>structural_dump W (code snippet) = Inr d\<close> assms
      have "r = [(''message'', check_mark @ '' Analysis Complete''),
                      (''analysis_result'', result)]"
        by (simp add: analyze_code_valid)
      moreover from a Inr have "fst (analyzer (formatted_input (code snippet) d) ?tr2) = Inr result"
        by simp
      ultimately show ?thesis using dist \<open>structural_dump W (code snippet) = Inr d\<close>
        by (intro exI [of _ "check_mark @ '' Analysis Complete''"] exI [of _ result])
           (simp, blast)
    qed
  qed
qed

theorem response_fields_witness:
  "fst (analyze_code stub_world raising_analyzer \<lparr>code = ''x = 1''\<rparr> []) =
     Inr [(''message'', cross_mark @ '' Analysis Failed''),
          (''analysis_result'', ''Error: timed out'')] \<and>
   map fst [(''message'', cross_mark @ '' Analysis Failed''),
            (''analysis_result'', ''Error: timed out'')] = [''message'', ''analysis_result'']"
  using response_fields
    [of stub_world raising_analyzer "\<lparr>code = ''x = 1''\<rparr>" "[]"
        "[(''message'', cross_mark @ '' Analysis Failed''),
          (''analysis_result'', ''Error: timed out'')]"]
  by (simp add: raising_analyzer_run)

section \<open>Requests that do not parse\<close>

text \<open>
  C3. The claim is that every text that is not valid Python gets the report tagged as a
  syntax error, with no envelope built and no call of the analyzer. The handler does
  this when \<open>ast.parse\<close> raises SyntaxError (lemma \<open>syntax_error_report\<close>), and
  only then: the first \<open>try\<close> catches nothing else. On a text of 6000 minus signs,
  which is not Python, \<open>ast.parse\<close> raises MemoryError, and the handler prints its
  line and raises that error. No envelope is built and the analyzer is not called, but
  no report is returned either.
\<close>

theorem invalid_text_fault:
  "served stub_world_oom gemini_analyzer \<lparr>code = dash_expr\<rparr> [] =
     (Inl (Exn (OtherException ''MemoryError'') []),
      [Print ''Received code for analysis...''])"
proof -
  have "structural_dump stub_world_oom (code \<lparr>code = dash_expr\<rparr>) =
          Inl (Exn (OtherException ''MemoryError'') [])"
    by (simp add: stub_parse_dash)
  moreover have "\<not> is_SyntaxError (cls (Exn (OtherException ''MemoryError'') []))"
    by simp
  ultimately show ?thesis
    unfolding served_def by (simp add: analyze_code_fault)
qed

section \<open>The analyzer\<close>

text \<open>
  C4. When the remote call raises, \<open>analyze\<close> does not raise: it returns a text of the
  error shape, an \<open>analysis\<close> document with one \<open>error\<close> element, whose content
  is \<open>Gemini API Failed:\<close> and the text of the exception.
\<close>

theorem analyze_normalises_failure:
  assumes "generate_content W (model self) envelope = Inl e"
  shows "analyze W self envelope tr =
           (Inr (''<analysis><error>Gemini API Failed: '' @ str e @ ''</error></analysis>''),
            tr @ [GenerateContent (model self) envelope]) \<and>
         error_schema (''<analysis><error>Gemini API Failed: '' @ str e @ ''</error></analysis>'')"
  using analyze_failure [OF assms] error_schema_failure by (rule conjI)

theorem analyze_normalises_failure_witness:
  "generate_content stub_world_down (model gemini_analyzer) ''envelope''
     = Inl (Exn (OtherException ''DeadlineExceeded'') ''504 Deadline Exceeded'') \<and>
   fst (analyze stub_world_down gemini_analyzer ''envelope'' []) =
     Inr ''<analysis><error>Gemini API Failed: 504 Deadline Exceeded</error></analysis>''"
  using analyze_normalises_failure
    [of stub_world_down gemini_analyzer "''envelope''"
        "Exn (OtherException ''DeadlineExceeded'') ''504 Deadline Exceeded''" "[]"]
  by (simp add: stub_world_down_call)

text \<open>
  C5. With an absent or an empty credential the constructor of the analyzer raises, and
  so does the module at startup, before the constructor is reached: no analyzer exists,
  nothing has been configured, and a process started this way ends with that error
  before it handles a request. The error is a ValueError in both places; the source has
  no error class of its own for a missing configuration.
\<close>

theorem missing_credential_is_fatal:
  assumes "falsy api_key" and "getenv W ''GEMINI_API_KEY'' = api_key"
  shows "AAAAnalyzer_init api_key name tr =
           (Inl (Exn ValueError ''API Key is required for AAAAnalyzer''), tr) \<and>
         startup W tr =
           (Inl (Exn ValueError (cross_mark @ '' No API Key found! Check your .env file.'')), tr) \<and>
         serve_after_startup W snippet tr =
           (Inl (Exn ValueError (cross_mark @ '' No API Key found! Check your .env file.'')), tr)"
  using assms
  by (cases api_key) (simp_all add: AAAAnalyzer_init_def startup_def serve_after_startup_def)

theorem missing_credential_is_fatal_witness:
  "falsy None \<and> getenv stub_world_no_key ''GEMINI_API_KEY'' = None \<and>
   AAAAnalyzer_init None ''gemini-3-flash-preview'' [] =
     (Inl (Exn ValueError ''API Key is required for AAAAnalyzer''), []) \<and>
   startup stub_world_no_key [] =
     (Inl (Exn ValueError (cross_mark @ '' No API Key found! Check your .env file.'')), []) \<and>
   serve_after_startup stub_world_no_key \<lparr>code = ''x = 1''\<rparr> [] =
     (Inl (Exn ValueError (cross_mark @ '' No API Key found! Check your .env file.'')), [])"
  using missing_credential_is_fatal
    [of None stub_world_no_key "''gemini-3-flash-preview''" "[]" "\<lparr>code = ''x = 1''\<rparr>"]
  by (simp add: stub_world_no_key_def)

section \<open>Faults of a request\<close>

text \<open>
  C7. The claim is that the handler answers every text with a report. It does not: the
  first \<open>try\<close> catches SyntaxError only, so any other exception of \<open>ast.parse\<close> or
  \<open>ast.dump\<close> leaves the handler (lemma \<open>analyze_code_fault\<close>), while the second
  \<open>try\<close> catches every exception. On the expression \<open>1+1+...+1\<close> with 5000 additions,
  valid Python on which \<open>ast.parse\<close> raises RecursionError, the handler prints its line
  and raises that error: no report is returned.
\<close>

theorem deep_expression_fault:
  "served stub_world gemini_analyzer \<lparr>code = deep_expr\<rparr> [] =
     (Inl (Exn RecursionError ''maximum recursion depth exceeded during ast construction''),
      [Print ''Received code for analysis...''])"
proof -
  have "structural_dump stub_world (code \<lparr>code = deep_expr\<rparr>) =
     Inl (Exn RecursionError ''maximum recursion depth exceeded during ast construction'')"
    by (simp add: stub_parse_deep)
  from analyze_code_fault [OF this] show ?thesis
    unfolding served_def by simp
qed

text \<open>
  C8. \<open>analyze\<close> returns a text for every envelope, in every world: it never raises.
  So the handler that the module wires to it never answers \<open>Analysis Failed\<close>; that
  branch is taken only with another analyzer, one that raises
  (lemma \<open>raising_analyzer_run\<close>).
\<close>

theorem analyze_is_total:
  "(\<exists>text. fst (analyze W self envelope tr) = Inr text) \<and>
   message_of (fst (served W self snippet tr)) \<noteq> Some (cross_mark @ '' Analysis Failed'')"
proof
  from analyze_returns [of W self envelope tr]
  show "\<exists>text. fst (analyze W self envelope tr) = Inr text" by auto
next
  show "message_of (fst (served W self snippet tr)) \<noteq> Some (cross_mark @ '' Analysis Failed'')"
  proof (cases "structural_dump W (code snippet)")
    case (Inl e)
    then show ?thesis
      unfolding served_def
      by (cases "is_SyntaxError (cls e)")
         (simp_all add: analyze_code_syntax_error analyze_code_fault message_of_def)
  next
    case (Inr d)
    from served_valid [OF this, of self tr] obtain result where
      "served W self snippet tr =
             (Inr [(''message'', check_mark @ '' Analysis Complete''),
                   (''analysis_result'', result)],
              tr @ [Print ''Received code for analysis...'',
                    Built (formatted_input (code snippet) d),
                    AnalyzeCall (formatted_input (code snippet) d),
                    GenerateContent (model self) (formatted_input (code snippet) d)])"
      by blast
    then show ?thesis
      by (simp add: message_of_def check_mark_def cross_mark_def)
  qed
qed

section \<open>The two error bodies\<close>

text \<open>
  C10. The result of a syntax-error report is the fixed text
  \<open><analysis><error>Invalid Python Code</error></analysis>\<close>. The result of a request
  whose remote call failed has the same shape, an \<open>analysis\<close> document with one
  \<open>error\<close> element. The messages of the two reports differ: the first is
  \<open>Syntax Error\<close>, the second \<open>Analysis Complete\<close>.
\<close>

theorem error_bodies_share_shape:
  assumes "ast_parse W (code bad) = Inl e1" and "is_SyntaxError (cls e1)"
    and "structural_dump W (code good) = Inr d"
    and "generate_content W (model self) (formatted_input (code good) d) = Inl e2"
  shows "fst (served W self bad tr1) =
           Inr [(''message'', cross_mark @ '' Syntax Error''),
                (''analysis_result'', ''<analysis><error>Invalid Python Code</error></analysis>'')] \<and>
         fst (served W self good tr2) =
           Inr [(''message'', check_mark @ '' Analysis Complete''),
                (''analysis_result'',
                 ''<analysis><error>Gemini API Failed: '' @ str e2 @ ''</error></analysis>'')] \<and>
         error_schema ''<analysis><error>Invalid Python Code</error></analysis>'' \<and>
         error_schema (''<analysis><error>Gemini API Failed: '' @ str e2 @ ''</error></analysis>'') \<and>
         cross_mark @ '' Syntax Error'' \<noteq> check_mark @ '' Analysis Complete''"
proof -
  from assms(1,2) have 1: "fst (served W self bad tr1) =
           Inr [(''message'', cross_mark @ '' Syntax Error''),
                (''analysis_result'', ''<analysis><error>Invalid Python Code</error></analysis>'')]"
    unfolding served_def
    by (simp add: analyze_code_syntax_error [OF parse_error_is_dump_error] syntax_error_body_def)
  have 2: "fst (served W self good tr2) =
           Inr [(''message'', check_mark @ '' Analysis Complete''),
                (''analysis_result'',
                 ''<analysis><error>Gemini API Failed: '' @ str e2 @ ''</error></analysis>'')]"
    by (rule served_failed_call [OF assms(3,4)])
  have 3: "error_schema ''<analysis><error>Invalid Python Code</error></analysis>''"
    using error_schema_syntax by (simp add: syntax_error_body_def)
  have 4: "cross_mark @ '' Syntax Error'' \<noteq> check_mark @ '' Analysis Complete''"
    by (simp add: cross_mark_def check_mark_def)
  from 1 2 3 error_schema_failure 4 show ?thesis by blast
qed

theorem error_bodies_share_shape_witness:
  "ast_parse stub_world_down (code \<lparr>code = ''def test(:''\<rparr>)
     = Inl (Exn SyntaxError ''invalid syntax (<unknown>, line 1)'') \<and>
   is_SyntaxError (cls (Exn SyntaxError ''invalid syntax (<unknown>, line 1)'')) \<and>
   structural_dump stub_world_down (code \<lparr>code = ''x = 1''\<rparr>)
     = Inr ''Module(body=[...], type_ignores=[])'' \<and>
   generate_content stub_world_down (model gemini_analyzer)
       (formatted_input (code \<lparr>code = ''x = 1''\<rparr>) ''Module(body=[...], type_ignores=[])'')
     = Inl (Exn (OtherException ''DeadlineExceeded'') ''504 Deadline Exceeded'') \<and>
   fst (served stub_world_down gemini_analyzer \<lparr>code = ''def test(:''\<rparr> []) =
     Inr [(''message'', cross_mark @ '' Syntax Error''),
          (''analysis_result'', ''<analysis><error>Invalid Python Code</error></analysis>'')] \<and>
   fst (served stub_world_down gemini_analyzer \<lparr>code = ''x = 1''\<rparr> []) =
     Inr [(''message'', check_mark @ '' Analysis Complete''),
          (''analysis_result'',
           ''<analysis><error>Gemini API Failed: 504 Deadline Exceeded</error></analysis>'')]"
proof -
  have a: "ast_parse stub_world_down (code \<lparr>code = ''def test(:''\<rparr>)
     = Inl (Exn SyntaxError ''invalid syntax (<unknown>, line 1)'')"
    by (simp add: stub_world_down_ast stub_parse_malformed)
  have b: "is_SyntaxError (cls (Exn SyntaxError ''invalid syntax (<unknown>, line 1)''))"
    by simp
  have c: "structural_dump stub_world_down (code \<lparr>code = ''x = 1''\<rparr>)
     = Inr ''Module(body=[...], type_ignores=[])''"
    by (simp add: stub_world_down_dump stub_dump_ok)
  have d: "generate_content stub_world_down (model gemini_analyzer)
       (formatted_input (code \<lparr>code = ''x = 1''\<rparr>) ''Module(body=[...], type_ignores=[])'')
     = Inl (Exn (OtherException ''DeadlineExceeded'') ''504 Deadline Exceeded'')"
    by (rule stub_world_down_call)
  from error_bodies_share_shape [OF a b c d, of "[]" "[]"] a b c d
  show ?thesis by simp
qed

end
